theory Spec2Isabelle
  imports Main "HOL-Library.Word"
begin

unbundle bit_operations_syntax

section \<open>The io\_uring backend: submission entries and operation descriptors\<close>

text \<open>
  The development follows \<^verbatim>\<open>folly/experimental/io/IoUringBackend.h\<close>.
  C integers are words of their width: \<^verbatim>\<open>int\<close> and \<^verbatim>\<open>uint32_t\<close> are
  32-bit words, \<^verbatim>\<open>off_t\<close>, \<^verbatim>\<open>size_t\<close> and pointers are 64-bit words. The null
  pointer to a submission entry or to a registration record is \<open>None\<close>.
\<close>

type_synonym s32 = "32 word"
type_synonym u32 = "32 word"
type_synonym u64 = "64 word"
type_synonym ptr = "64 word"

subsection \<open>The submission entry and the helpers of liburing\<close>

text \<open>
  \<^verbatim>\<open>struct io_uring_sqe\<close> and the inline helpers \<^verbatim>\<open>io_uring_prep_*\<close> belong to
  liburing, which the header includes. The record keeps the fields the helpers write:
  the opcode, the entry flags, the target, offset, address and length, the union of the
  per-operation flags (\<^verbatim>\<open>rw_flags\<close>, \<^verbatim>\<open>poll_events\<close>, \<^verbatim>\<open>msg_flags\<close>,
  \<^verbatim>\<open>cancel_flags\<close>) and the user-data tag. The opcodes are the members of
  \<^verbatim>\<open>enum io_uring_op\<close> that this header uses, and \<open>IORING_OP_NOP\<close>.
\<close>

datatype io_uring_op =
    IORING_OP_NOP
  | IORING_OP_READV
  | IORING_OP_WRITEV
  | IORING_OP_POLL_ADD
  | IORING_OP_RECVMSG
  | IORING_OP_ASYNC_CANCEL
  | IORING_OP_READ
  | IORING_OP_WRITE

record io_uring_sqe =
  sqe_opcode :: io_uring_op
  sqe_flags :: "8 word"
  sqe_ioprio :: "16 word"
  sqe_fd :: s32
  sqe_off :: u64
  sqe_addr :: u64
  sqe_len :: u32
  sqe_op_flags :: u32
  sqe_user_data :: u64

definition IOSQE_FIXED_FILE :: "8 word" where
  "IOSQE_FIXED_FILE = 1"

definition MSG_TRUNC :: u32 where
  "MSG_TRUNC = 0x20"

definition io_uring_prep_rw ::
  "io_uring_op \<Rightarrow> io_uring_sqe \<Rightarrow> s32 \<Rightarrow> ptr \<Rightarrow> u32 \<Rightarrow> u64 \<Rightarrow> io_uring_sqe" where
  "io_uring_prep_rw opc sqe fd a n offset =
     sqe\<lparr>sqe_opcode := opc, sqe_flags := 0, sqe_ioprio := 0, sqe_fd := fd,
         sqe_off := offset, sqe_addr := a, sqe_len := n, sqe_op_flags := 0,
         sqe_user_data := 0\<rparr>"

definition io_uring_prep_poll_add :: "io_uring_sqe \<Rightarrow> s32 \<Rightarrow> u32 \<Rightarrow> io_uring_sqe" where
  "io_uring_prep_poll_add sqe fd poll_mask =
     (io_uring_prep_rw IORING_OP_POLL_ADD sqe fd 0 0 0)\<lparr>sqe_op_flags := poll_mask\<rparr>"

definition io_uring_prep_read ::
  "io_uring_sqe \<Rightarrow> s32 \<Rightarrow> ptr \<Rightarrow> u32 \<Rightarrow> u64 \<Rightarrow> io_uring_sqe" where
  "io_uring_prep_read sqe fd buf nbytes offset =
     io_uring_prep_rw IORING_OP_READ sqe fd buf nbytes offset"

definition io_uring_prep_write ::
  "io_uring_sqe \<Rightarrow> s32 \<Rightarrow> ptr \<Rightarrow> u32 \<Rightarrow> u64 \<Rightarrow> io_uring_sqe" where
  "io_uring_prep_write sqe fd buf nbytes offset =
     io_uring_prep_rw IORING_OP_WRITE sqe fd buf nbytes offset"

definition io_uring_prep_readv ::
  "io_uring_sqe \<Rightarrow> s32 \<Rightarrow> ptr \<Rightarrow> u32 \<Rightarrow> u64 \<Rightarrow> io_uring_sqe" where
  "io_uring_prep_readv sqe fd iovecs nr_vecs offset =
     io_uring_prep_rw IORING_OP_READV sqe fd iovecs nr_vecs offset"

definition io_uring_prep_writev ::
  "io_uring_sqe \<Rightarrow> s32 \<Rightarrow> ptr \<Rightarrow> u32 \<Rightarrow> u64 \<Rightarrow> io_uring_sqe" where
  "io_uring_prep_writev sqe fd iovecs nr_vecs offset =
     io_uring_prep_rw IORING_OP_WRITEV sqe fd iovecs nr_vecs offset"

definition io_uring_prep_recvmsg :: "io_uring_sqe \<Rightarrow> s32 \<Rightarrow> ptr \<Rightarrow> u32 \<Rightarrow> io_uring_sqe" where
  "io_uring_prep_recvmsg sqe fd msg flags =
     (io_uring_prep_rw IORING_OP_RECVMSG sqe fd msg 1 0)\<lparr>sqe_op_flags := flags\<rparr>"

definition io_uring_prep_cancel :: "io_uring_sqe \<Rightarrow> ptr \<Rightarrow> u32 \<Rightarrow> io_uring_sqe" where
  "io_uring_prep_cancel sqe user_data flags =
     (io_uring_prep_rw IORING_OP_ASYNC_CANCEL sqe (- 1) user_data 0 0)\<lparr>sqe_op_flags := flags\<rparr>"

definition io_uring_sqe_set_data :: "io_uring_sqe \<Rightarrow> ptr \<Rightarrow> io_uring_sqe" where
  "io_uring_sqe_set_data sqe data = sqe\<lparr>sqe_user_data := data\<rparr>"

subsection \<open>Registration records\<close>

text \<open>
  Modelled from the spec: \<^verbatim>\<open>FdRegistrationRecord\<close> is declared in
  \<^verbatim>\<open>PollIoBackend.h\<close>, which is not part of the sources at hand. The spec's data
  model gives a registration slot as \<open>{ index, fd, in_use }\<close>; the header reads the
  index as \<^verbatim>\<open>fdRecord_->idx_\<close>. Member names lose the trailing underscore of the
  source, which a record field cannot carry, and take the prefix \<open>rec_\<close> here.
\<close>

record FdRegistrationRecord =
  rec_idx :: nat
  rec_fd :: s32
  rec_in_use :: bool

subsection \<open>IoSqe\<close>

text \<open>
  \<^verbatim>\<open>IoSqe\<close> derives from \<^verbatim>\<open>PollIoBackend::IoCb\<close>; of the base class the prepare
  operations use \<^verbatim>\<open>fdRecord_\<close> (a pointer to a registration record, here the record
  it points to, of which only the index is read) and \<^verbatim>\<open>backend_\<close>. The backend is
  passed as a state \<open>b\<close> together with its virtual \<^verbatim>\<open>registerFd\<close>, a function
  \<open>reg\<close> from the state and the file descriptor to the returned pointer and the new
  state.
  The address of the descriptor (\<^verbatim>\<open>this\<close>) is an argument.

  \<^verbatim>\<open>CHECK(entry)\<close> aborts the process when the entry is null: the result
  \<open>Inl CheckFailed\<close>. Writing through a null entry with no check before it is
  \<open>Inl NullDereference\<close>.
\<close>

datatype fault = CheckFailed | NullDereference

record IoSqe =
  fdRecord :: "FdRegistrationRecord option"

type_synonym 'b registerFd = "'b \<Rightarrow> s32 \<Rightarrow> FdRegistrationRecord option \<times> 'b"

record iovec =
  iov_base :: ptr
  iov_len :: u64

definition prepPollAdd ::
  "'b registerFd \<Rightarrow> ptr \<Rightarrow> io_uring_sqe option \<Rightarrow> s32 \<Rightarrow> u32 \<Rightarrow> bool \<Rightarrow>
   'a IoSqe_scheme \<times> 'b \<Rightarrow> fault + (io_uring_sqe \<times> 'a IoSqe_scheme \<times> 'b)" where
  "prepPollAdd reg this entry fd events registerFd db =
     (case entry of
        None \<Rightarrow> Inl CheckFailed
      | Some sqe \<Rightarrow>
          (let (d, b) = db;
               (d1, b1) =
                 (if registerFd \<and> fdRecord d = None
                  then (let (r, b') = reg b fd in (d\<lparr>fdRecord := r\<rparr>, b'))
                  else (d, b));
               sqe1 =
                 (case fdRecord d1 of
                    Some rec \<Rightarrow>
                      (let s = io_uring_prep_poll_add sqe (of_nat (rec_idx rec)) events
                       in s\<lparr>sqe_flags := sqe_flags s OR IOSQE_FIXED_FILE\<rparr>)
                  | None \<Rightarrow> io_uring_prep_poll_add sqe fd events)
           in Inr (io_uring_sqe_set_data sqe1 this, d1, b1)))"

definition prepRead ::
  "'b registerFd \<Rightarrow> ptr \<Rightarrow> io_uring_sqe option \<Rightarrow> s32 \<Rightarrow> iovec \<Rightarrow> u64 \<Rightarrow> bool \<Rightarrow>
   'a IoSqe_scheme \<times> 'b \<Rightarrow> fault + (io_uring_sqe \<times> 'a IoSqe_scheme \<times> 'b)" where
  "prepRead reg this entry fd iov offset registerFd db =
     (case entry of
        None \<Rightarrow> Inl CheckFailed
      | Some sqe \<Rightarrow>
          (let (d, b) = db;
               (d1, b1) =
                 (if registerFd \<and> fdRecord d = None
                  then (let (r, b') = reg b fd in (d\<lparr>fdRecord := r\<rparr>, b'))
                  else (d, b));
               sqe1 =
                 (case fdRecord d1 of
                    Some rec \<Rightarrow>
                      (let s = io_uring_prep_read sqe (of_nat (rec_idx rec))
                                 (iov_base iov) (ucast (iov_len iov)) offset
                       in s\<lparr>sqe_flags := sqe_flags s OR IOSQE_FIXED_FILE\<rparr>)
                  | None \<Rightarrow>
                      io_uring_prep_read sqe fd (iov_base iov) (ucast (iov_len iov)) offset)
           in Inr (io_uring_sqe_set_data sqe1 this, d1, b1)))"

definition prepWrite ::
  "'b registerFd \<Rightarrow> ptr \<Rightarrow> io_uring_sqe option \<Rightarrow> s32 \<Rightarrow> iovec \<Rightarrow> u64 \<Rightarrow> bool \<Rightarrow>
   'a IoSqe_scheme \<times> 'b \<Rightarrow> fault + (io_uring_sqe \<times> 'a IoSqe_scheme \<times> 'b)" where
  "prepWrite reg this entry fd iov offset registerFd db =
     (case entry of
        None \<Rightarrow> Inl CheckFailed
      | Some sqe \<Rightarrow>
          (let (d, b) = db;
               (d1, b1) =
                 (if registerFd \<and> fdRecord d = None
                  then (let (r, b') = reg b fd in (d\<lparr>fdRecord := r\<rparr>, b'))
                  else (d, b));
               sqe1 =
                 (case fdRecord d1 of
                    Some rec \<Rightarrow>
                      (let s = io_uring_prep_write sqe (of_nat (rec_idx rec))
                                 (iov_base iov) (ucast (iov_len iov)) offset
                       in s\<lparr>sqe_flags := sqe_flags s OR IOSQE_FIXED_FILE\<rparr>)
                  | None \<Rightarrow>
                      io_uring_prep_write sqe fd (iov_base iov) (ucast (iov_len iov)) offset)
           in Inr (io_uring_sqe_set_data sqe1 this, d1, b1)))"

definition prepRecvmsg ::
  "'b registerFd \<Rightarrow> ptr \<Rightarrow> io_uring_sqe option \<Rightarrow> s32 \<Rightarrow> ptr \<Rightarrow> bool \<Rightarrow>
   'a IoSqe_scheme \<times> 'b \<Rightarrow> fault + (io_uring_sqe \<times> 'a IoSqe_scheme \<times> 'b)" where
  "prepRecvmsg reg this entry fd msg registerFd db =
     (case entry of
        None \<Rightarrow> Inl CheckFailed
      | Some sqe \<Rightarrow>
          (let (d, b) = db;
               (d1, b1) =
                 (if registerFd \<and> fdRecord d = None
                  then (let (r, b') = reg b fd in (d\<lparr>fdRecord := r\<rparr>, b'))
                  else (d, b));
               sqe1 =
                 (case fdRecord d1 of
                    Some rec \<Rightarrow>
                      (let s = io_uring_prep_recvmsg sqe (of_nat (rec_idx rec)) msg MSG_TRUNC
                       in s\<lparr>sqe_flags := sqe_flags s OR IOSQE_FIXED_FILE\<rparr>)
                  | None \<Rightarrow> io_uring_prep_recvmsg sqe fd msg 0)
           in Inr (io_uring_sqe_set_data sqe1 this, d1, b1)))"

definition prepCancel :: "ptr \<Rightarrow> io_uring_sqe option \<Rightarrow> ptr \<Rightarrow> fault + io_uring_sqe" where
  "prepCancel this sqe user_data =
     (case sqe of
        None \<Rightarrow> Inl CheckFailed
      | Some e \<Rightarrow> Inr (io_uring_sqe_set_data (io_uring_prep_cancel e user_data 0) this))"

subsection \<open>ReadWriteIoSqe and its four subclasses\<close>

text \<open>
  \<^verbatim>\<open>iov_\<close> is a \<^verbatim>\<open>folly::small_vector<struct iovec>\<close>: its elements are the list
  \<open>rw_iov\<close>, and the address \<^verbatim>\<open>iov_.data()\<close> of its storage is the argument
  \<open>iov_data\<close> of the operations that pass it on.
  The callback \<^verbatim>\<open>cb_\<close> is a handle of type \<open>'c\<close>; calling it with a result adds the
  pair of the handle and the result to the list of the calls made so far. The members
  take the prefix \<open>rw_\<close>.

  Modelled from the spec: the base class \<^verbatim>\<open>PollIoBackend::IoCb\<close> is not part of the
  sources at hand; a descriptor has no registration slot bound when it is constructed
  (``target file descriptor (or registration slot, once bound)''), so the constructors
  leave \<open>fdRecord\<close> null.
\<close>

record 'c ReadWriteIoSqe = IoSqe +
  rw_fd :: s32
  rw_res :: s32
  rw_iov :: "iovec list"
  rw_offset :: u64
  rw_cb :: 'c

definition ReadWriteIoSqe_single ::
  "s32 \<Rightarrow> iovec \<Rightarrow> u64 \<Rightarrow> 'c \<Rightarrow> 'c ReadWriteIoSqe" where
  "ReadWriteIoSqe_single fd iov offset cb =
     \<lparr>fdRecord = None, rw_fd = fd, rw_res = - 1, rw_iov = [iov],
      rw_offset = offset, rw_cb = cb\<rparr>"

definition ReadWriteIoSqe_range ::
  "s32 \<Rightarrow> iovec list \<Rightarrow> u64 \<Rightarrow> 'c \<Rightarrow> 'c ReadWriteIoSqe" where
  "ReadWriteIoSqe_range fd iov offset cb =
     \<lparr>fdRecord = None, rw_fd = fd, rw_res = - 1, rw_iov = iov,
      rw_offset = offset, rw_cb = cb\<rparr>"

definition processActive :: "('c, 'a) ReadWriteIoSqe_scheme \<Rightarrow> ('c \<times> s32) list \<Rightarrow> ('c \<times> s32) list" where
  "processActive d calls = calls @ [(rw_cb d, rw_res d)]"

text \<open>
  \<^verbatim>\<open>ReadIoSqe\<close> and \<^verbatim>\<open>WriteIoSqe\<close> hand \<^verbatim>\<open>iov_.data()\<close> to the prepare
  operation, which reads the first element after its check of the entry. A descriptor
  built from an empty range has no first element: with a non-null entry the read is
  \<open>Inl InvalidIovec\<close>.
\<close>

datatype submit_fault = Fault fault | InvalidIovec

definition lift_fault ::
  "fault + (io_uring_sqe \<times> 'd \<times> 'b) \<Rightarrow> submit_fault + (bool \<times> io_uring_sqe \<times> 'd \<times> 'b)" where
  "lift_fault r = (case r of Inl f \<Rightarrow> Inl (Fault f) | Inr x \<Rightarrow> Inr (True, x))"

definition ReadIoSqe_processSubmit ::
  "'b registerFd \<Rightarrow> ptr \<Rightarrow> io_uring_sqe option \<Rightarrow> ('c, 'a) ReadWriteIoSqe_scheme \<times> 'b \<Rightarrow>
   submit_fault + (bool \<times> io_uring_sqe \<times> ('c, 'a) ReadWriteIoSqe_scheme \<times> 'b)" where
  "ReadIoSqe_processSubmit reg this entry db =
     (case rw_iov (fst db) of
        iov # _ \<Rightarrow>
          lift_fault (prepRead reg this entry (rw_fd (fst db)) iov (rw_offset (fst db)) False db)
      | [] \<Rightarrow> (case entry of None \<Rightarrow> Inl (Fault CheckFailed) | Some _ \<Rightarrow> Inl InvalidIovec))"

definition WriteIoSqe_processSubmit ::
  "'b registerFd \<Rightarrow> ptr \<Rightarrow> io_uring_sqe option \<Rightarrow> ('c, 'a) ReadWriteIoSqe_scheme \<times> 'b \<Rightarrow>
   submit_fault + (bool \<times> io_uring_sqe \<times> ('c, 'a) ReadWriteIoSqe_scheme \<times> 'b)" where
  "WriteIoSqe_processSubmit reg this entry db =
     (case rw_iov (fst db) of
        iov # _ \<Rightarrow>
          lift_fault (prepWrite reg this entry (rw_fd (fst db)) iov (rw_offset (fst db)) False db)
      | [] \<Rightarrow> (case entry of None \<Rightarrow> Inl (Fault CheckFailed) | Some _ \<Rightarrow> Inl InvalidIovec))"

definition ReadvIoSqe_processSubmit ::
  "ptr \<Rightarrow> ptr \<Rightarrow> io_uring_sqe option \<Rightarrow> ('c, 'a) ReadWriteIoSqe_scheme \<times> 'b \<Rightarrow>
   submit_fault + (bool \<times> io_uring_sqe \<times> ('c, 'a) ReadWriteIoSqe_scheme \<times> 'b)" where
  "ReadvIoSqe_processSubmit this iov_data entry db =
     (case entry of
        None \<Rightarrow> Inl (Fault NullDereference)
      | Some sqe \<Rightarrow>
          (let (d, b) = db;
               sqe1 = io_uring_prep_readv sqe (rw_fd d) iov_data
                        (of_nat (length (rw_iov d))) (rw_offset d)
           in Inr (True, io_uring_sqe_set_data sqe1 this, d, b)))"

definition WritevIoSqe_processSubmit ::
  "ptr \<Rightarrow> ptr \<Rightarrow> io_uring_sqe option \<Rightarrow> ('c, 'a) ReadWriteIoSqe_scheme \<times> 'b \<Rightarrow>
   submit_fault + (bool \<times> io_uring_sqe \<times> ('c, 'a) ReadWriteIoSqe_scheme \<times> 'b)" where
  "WritevIoSqe_processSubmit this iov_data entry db =
     (case entry of
        None \<Rightarrow> Inl (Fault NullDereference)
      | Some sqe \<Rightarrow>
          (let (d, b) = db;
               sqe1 = io_uring_prep_writev sqe (rw_fd d) iov_data
                        (of_nat (length (rw_iov d))) (rw_offset d)
           in Inr (True, io_uring_sqe_set_data sqe1 this, d, b)))"

subsection \<open>Storage of the iovec list\<close>

text \<open>
  \<^verbatim>\<open>folly::small_vector<T, N>\<close> keeps up to \<open>N\<close> elements inside the object and
  allocates on the heap beyond that. The class template is declared in
  \<^verbatim>\<open>folly/small_vector.h\<close>, not part of the sources at hand, so the inline capacity
  it takes when the second template argument is left out is the parameter \<open>dflt\<close>.
  The member is declared \<^verbatim>\<open>folly::small_vector<struct iovec> iov_\<close>, with no second
  argument; \<^verbatim>\<open>kNumInlineIoVec\<close> is declared the line before and used nowhere.
\<close>

datatype storage = Inline | Heap

definition small_vector_storage :: "nat \<Rightarrow> nat \<Rightarrow> storage" where
  "small_vector_storage max_inline n = (if n \<le> max_inline then Inline else Heap)"

definition kNumInlineIoVec :: nat where
  "kNumInlineIoVec = 4"

definition iov_storage :: "nat \<Rightarrow> ('c, 'a) ReadWriteIoSqe_scheme \<Rightarrow> storage" where
  "iov_storage dflt d = small_vector_storage dflt (length (rw_iov d))"

subsection \<open>The registration pool\<close>

text \<open>
  Modelled from the spec: \<^verbatim>\<open>FdRegistry\<close> is declared in the header, the bodies of
  its constructor, \<^verbatim>\<open>alloc\<close> and \<^verbatim>\<open>free\<close> are not part of the sources at hand.
  The spec: ``\<open>allocate(fd) -> Slot|null\<close> binds an unused slot to \<open>fd\<close> in O(1),
  returning null if the pool is exhausted''; ``\<open>release(slot) -> bool\<close> returns the slot
  to the free list; returns false if the slot was already free (double-free guard)'';
  ``free slots form a singly-linked free list with O(1) push/pop'', ``an index-based free
  list over a fixed array''.

  Of the members the header declares, the model keeps \<^verbatim>\<open>records_\<close> and the free list
  \<^verbatim>\<open>free_\<close>, a list of indices into \<^verbatim>\<open>records_\<close> with its head first. A pointer
  to a record of the pool is given by the record's index: \<open>FdRegistry_free\<close> finds the
  record it is to release in the pool's own table.
\<close>

record FdRegistry =
  reg_records :: "FdRegistrationRecord list"
  reg_free :: "nat list"

definition FdRegistry_new :: "nat \<Rightarrow> FdRegistry" where
  "FdRegistry_new n =
     \<lparr>reg_records = map (\<lambda>i. \<lparr>rec_idx = i, rec_fd = - 1, rec_in_use = False\<rparr>) [0..<n],
      reg_free = [0..<n]\<rparr>"

definition FdRegistry_alloc :: "FdRegistry \<Rightarrow> s32 \<Rightarrow> FdRegistrationRecord option \<times> FdRegistry" where
  "FdRegistry_alloc r fd =
     (case reg_free r of
        [] \<Rightarrow> (None, r)
      | i # rest \<Rightarrow>
          (let rc = (reg_records r ! i)\<lparr>rec_fd := fd, rec_in_use := True\<rparr>
           in (Some rc, r\<lparr>reg_records := (reg_records r)[i := rc], reg_free := rest\<rparr>)))"

definition FdRegistry_free :: "FdRegistry \<Rightarrow> FdRegistrationRecord \<Rightarrow> bool \<times> FdRegistry" where
  "FdRegistry_free r rc =
     (let i = rec_idx rc
      in if rec_in_use (reg_records r ! i)
         then (True, r\<lparr>reg_records := (reg_records r)[i := (reg_records r ! i)\<lparr>rec_in_use := False\<rparr>],
                       reg_free := i # reg_free r\<rparr>)
         else (False, r))"

text \<open>
  The invariant of the pool: the free list has no index twice and only indices of the
  table, every record carries its own index, and a record is in use exactly when its
  index is not on the free list.
\<close>

definition FdRegistry_wf :: "FdRegistry \<Rightarrow> bool" where
  "FdRegistry_wf r \<longleftrightarrow>
     distinct (reg_free r) \<and>
     list_all (\<lambda>i. i < length (reg_records r)) (reg_free r) \<and>
     list_all (\<lambda>i. rec_idx (reg_records r ! i) = i \<and>
                    (rec_in_use (reg_records r ! i) \<longleftrightarrow> i \<notin> set (reg_free r)))
       [0..<length (reg_records r)]"

text \<open>
  A run of the pool: requests to allocate, and releases of the record with a given index.
  The run keeps the list of the owners, the indices handed out and not released since;
  a release that succeeds takes one occurrence of the index from it.
\<close>

datatype pool_op = Alloc s32 | Release nat

fun pool_step :: "FdRegistry \<times> nat list \<Rightarrow> pool_op \<Rightarrow> FdRegistry \<times> nat list" where
  "pool_step (r, owners) (Alloc fd) =
     (case FdRegistry_alloc r fd of
        (None, r') \<Rightarrow> (r', owners)
      | (Some rc, r') \<Rightarrow> (r', rec_idx rc # owners))"
| "pool_step (r, owners) (Release i) =
     (case FdRegistry_free r (reg_records r ! i) of
        (True, r') \<Rightarrow> (r', remove1 i owners)
      | (False, r') \<Rightarrow> (r', owners))"

definition pool_run :: "nat \<Rightarrow> pool_op list \<Rightarrow> FdRegistry \<times> nat list" where
  "pool_run n ops = foldl pool_step (FdRegistry_new n, []) ops"

fun pool_op_ok :: "nat \<Rightarrow> pool_op \<Rightarrow> bool" where
  "pool_op_ok n (Alloc fd) = True"
| "pool_op_ok n (Release i) = (i < n)"

text \<open>\<open>alloc_all r fds\<close> allocates for each descriptor of \<open>fds\<close> in turn.\<close>

fun alloc_all :: "FdRegistry \<Rightarrow> s32 list \<Rightarrow> FdRegistrationRecord option list \<times> FdRegistry" where
  "alloc_all r [] = ([], r)"
| "alloc_all r (fd # fds) =
     (let (x, r1) = FdRegistry_alloc r fd; (xs, r2) = alloc_all r1 fds in (x # xs, r2))"

subsection \<open>The backend\<close>

text \<open>
  \<^verbatim>\<open>IoUringBackend::registerFd\<close> and \<^verbatim>\<open>unregisterFd\<close> hand their argument to the
  pool \<^verbatim>\<open>fdRegistry_\<close>.

  Modelled from the spec: beside the pool, the state of the backend lists what the spec's
  ring driver holds: the live read and write descriptors by address, the entries queued
  and not completed, the completions posted and not drained (tag and result) and the
  calls of callbacks made so far. The two operations below read and write the pool only.
\<close>

record 'c IoUringBackend =
  fdRegistry :: FdRegistry
  ioSqes :: "ptr \<Rightarrow> 'c ReadWriteIoSqe option"
  submitted :: "io_uring_sqe list"
  completions :: "(u64 \<times> s32) list"
  invoked :: "('c \<times> s32) list"

definition IoUringBackend_registerFd :: "'c IoUringBackend registerFd" where
  "IoUringBackend_registerFd b fd =
     (let (x, r) = FdRegistry_alloc (fdRegistry b) fd in (x, b\<lparr>fdRegistry := r\<rparr>))"

definition IoUringBackend_unregisterFd ::
  "'c IoUringBackend \<Rightarrow> FdRegistrationRecord \<Rightarrow> bool \<times> 'c IoUringBackend" where
  "IoUringBackend_unregisterFd b rc =
     (let (ok, r) = FdRegistry_free (fdRegistry b) rc in (ok, b\<lparr>fdRegistry := r\<rparr>))"

subsection \<open>The contract of the fixed-file path, and concrete inputs\<close>

text \<open>
  The contract of a prepare operation on its target, in the words of the specification:
  when registration is requested and no slot is bound, the pool is asked once; with no
  slot granted the entry targets the raw descriptor and carries no fixed-file flag; with a
  slot granted, or bound before, the entry targets the index of the slot and carries the
  flag. The pool is left alone when it is not asked.
\<close>

definition fixed_file_contract ::
  "'b registerFd \<Rightarrow> s32 \<Rightarrow> bool \<Rightarrow> 'a IoSqe_scheme \<times> 'b \<Rightarrow>
   fault + (io_uring_sqe \<times> 'a IoSqe_scheme \<times> 'b) \<Rightarrow> bool" where
  "fixed_file_contract reg fd registerFd db res \<longleftrightarrow>
     (case res of
        Inl _ \<Rightarrow> False
      | Inr (s, d', b') \<Rightarrow>
          (if registerFd \<and> fdRecord (fst db) = None
           then (case reg (snd db) fd of
                   (None, b1) \<Rightarrow>
                     sqe_fd s = fd \<and> sqe_flags s AND IOSQE_FIXED_FILE = 0 \<and>
                     d' = fst db \<and> b' = b1
                 | (Some rc, b1) \<Rightarrow>
                     sqe_fd s = of_nat (rec_idx rc) \<and>
                     sqe_flags s AND IOSQE_FIXED_FILE = IOSQE_FIXED_FILE \<and>
                     d' = (fst db)\<lparr>fdRecord := Some rc\<rparr> \<and> b' = b1)
           else (case fdRecord (fst db) of
                   Some rc \<Rightarrow>
                     sqe_fd s = of_nat (rec_idx rc) \<and>
                     sqe_flags s AND IOSQE_FIXED_FILE = IOSQE_FIXED_FILE \<and>
                     d' = fst db \<and> b' = snd db
                 | None \<Rightarrow>
                     sqe_fd s = fd \<and> sqe_flags s AND IOSQE_FIXED_FILE = 0 \<and>
                     d' = fst db \<and> b' = snd db)))"

text \<open>A zeroed entry, and a backend with an idle ring and a pool of \<open>n\<close> slots.\<close>

definition sqe_blank :: io_uring_sqe where
  "sqe_blank =
     \<lparr>sqe_opcode = IORING_OP_NOP, sqe_flags = 0, sqe_ioprio = 0, sqe_fd = 0, sqe_off = 0,
      sqe_addr = 0, sqe_len = 0, sqe_op_flags = 0, sqe_user_data = 0\<rparr>"

definition backend_idle :: "nat \<Rightarrow> 'c IoUringBackend" where
  "backend_idle n =
     \<lparr>fdRegistry = FdRegistry_new n, ioSqes = (\<lambda>_. None), submitted = [], completions = [],
      invoked = []\<rparr>"

section \<open>Properties of the prepare operations\<close>

lemmas prep_defs = io_uring_prep_rw_def io_uring_prep_poll_add_def io_uring_prep_read_def
  io_uring_prep_write_def io_uring_prep_readv_def io_uring_prep_writev_def
  io_uring_prep_recvmsg_def io_uring_prep_cancel_def io_uring_sqe_set_data_def

lemma prepPollAdd_contract:
  "fixed_file_contract reg fd rf db (prepPollAdd reg this (Some sqe) fd events rf db)"
  by (cases db; cases "reg (snd db) fd")
     (auto simp: fixed_file_contract_def prepPollAdd_def prep_defs IOSQE_FIXED_FILE_def Let_def
           split: option.splits prod.splits)

lemma prepRead_contract:
  "fixed_file_contract reg fd rf db (prepRead reg this (Some sqe) fd iov offset rf db)"
  by (cases db; cases "reg (snd db) fd")
     (auto simp: fixed_file_contract_def prepRead_def prep_defs IOSQE_FIXED_FILE_def Let_def
           split: option.splits prod.splits)

lemma prepWrite_contract:
  "fixed_file_contract reg fd rf db (prepWrite reg this (Some sqe) fd iov offset rf db)"
  by (cases db; cases "reg (snd db) fd")
     (auto simp: fixed_file_contract_def prepWrite_def prep_defs IOSQE_FIXED_FILE_def Let_def
           split: option.splits prod.splits)

lemma prepRecvmsg_contract:
  "fixed_file_contract reg fd rf db (prepRecvmsg reg this (Some sqe) fd msg rf db)"
  by (cases db; cases "reg (snd db) fd")
     (auto simp: fixed_file_contract_def prepRecvmsg_def prep_defs IOSQE_FIXED_FILE_def Let_def
           split: option.splits prod.splits)

text \<open>
  C1. Each of \<open>prepPollAdd\<close>, \<open>prepRead\<close>, \<open>prepWrite\<close> and \<open>prepRecvmsg\<close>, given an
  entry, meets the contract of the fixed-file path for every backend and every
  \<open>registerFd\<close>: with registration requested and no slot bound it asks the pool once,
  prepares on the raw descriptor with no fixed-file flag when the pool returns null, and
  on the index of the slot with the flag set when a slot is obtained or was bound before.
\<close>

theorem prepare_fixed_file_or_fallback:
  "fixed_file_contract reg fd rf db (prepPollAdd reg this (Some sqe) fd events rf db) \<and>
   fixed_file_contract reg fd rf db (prepRead reg this (Some sqe) fd iov offset rf db) \<and>
   fixed_file_contract reg fd rf db (prepWrite reg this (Some sqe) fd iov offset rf db) \<and>
   fixed_file_contract reg fd rf db (prepRecvmsg reg this (Some sqe) fd msg rf db)"
  by (simp add: prepPollAdd_contract prepRead_contract prepWrite_contract prepRecvmsg_contract)

theorem prepare_fixed_file_or_fallback_witness:
  "fixed_file_contract FdRegistry_alloc 5 True (\<lparr>fdRecord = None\<rparr>, FdRegistry_new 0)
     (prepRead FdRegistry_alloc 0x1000 (Some sqe_blank) 5
        \<lparr>iov_base = 0x2000, iov_len = 16\<rparr> 0 True (\<lparr>fdRecord = None\<rparr>, FdRegistry_new 0)) \<and>
   map_sum id (sqe_fd \<circ> fst)
     (prepRead FdRegistry_alloc 0x1000 (Some sqe_blank) 5
        \<lparr>iov_base = 0x2000, iov_len = 16\<rparr> 0 True (\<lparr>fdRecord = None\<rparr>, FdRegistry_new 0)) = Inr 5"
  using prepare_fixed_file_or_fallback
          [of FdRegistry_alloc 5 True "(\<lparr>fdRecord = None\<rparr>, FdRegistry_new 0)" "0x1000" sqe_blank
              0 "\<lparr>iov_base = 0x2000, iov_len = 16\<rparr>" 0 0]
  by (simp add: prepRead_def prep_defs FdRegistry_alloc_def FdRegistry_new_def)

text \<open>
  The two paths of \<open>prepPollAdd\<close>, \<open>prepRead\<close> and \<open>prepWrite\<close> prepare the same
  entry but for the target and the entry flags.
\<close>

lemma prepPollAdd_paths_agree:
  assumes "prepPollAdd reg this (Some sqe) fd events False (d\<lparr>fdRecord := Some rc\<rparr>, b) = Inr (s1, d1, b1)"
    and "prepPollAdd reg this (Some sqe) fd events False (d\<lparr>fdRecord := None\<rparr>, b) = Inr (s2, d2, b2)"
  shows "s1\<lparr>sqe_fd := fd, sqe_flags := 0\<rparr> = s2"
  using assms by (auto simp: prepPollAdd_def prep_defs)

lemma prepRead_paths_agree:
  assumes "prepRead reg this (Some sqe) fd iov offset False (d\<lparr>fdRecord := Some rc\<rparr>, b) = Inr (s1, d1, b1)"
    and "prepRead reg this (Some sqe) fd iov offset False (d\<lparr>fdRecord := None\<rparr>, b) = Inr (s2, d2, b2)"
  shows "s1\<lparr>sqe_fd := fd, sqe_flags := 0\<rparr> = s2"
  using assms by (auto simp: prepRead_def prep_defs)

lemma prepWrite_paths_agree:
  assumes "prepWrite reg this (Some sqe) fd iov offset False (d\<lparr>fdRecord := Some rc\<rparr>, b) = Inr (s1, d1, b1)"
    and "prepWrite reg this (Some sqe) fd iov offset False (d\<lparr>fdRecord := None\<rparr>, b) = Inr (s2, d2, b2)"
  shows "s1\<lparr>sqe_fd := fd, sqe_flags := 0\<rparr> = s2"
  using assms by (auto simp: prepWrite_def prep_defs)

text \<open>
  C2. The paths of \<open>prepRecvmsg\<close> do not agree on the message flags. For a descriptor
  with no slot bound, registration requested, descriptor 5 and a zeroed entry: when the
  pool grants slot 0 the entry carries the message flags \<open>MSG_TRUNC\<close> (0x20), when the
  pool returns null it carries the message flags 0.
\<close>

theorem prepRecvmsg_msg_flags_differ:
  "map_sum id (sqe_op_flags \<circ> fst)
     (prepRecvmsg (\<lambda>b fd. (Some \<lparr>rec_idx = 0, rec_fd = fd, rec_in_use = True\<rparr>, b))
        0x1000 (Some sqe_blank) 5 0x2000 True (\<lparr>fdRecord = None\<rparr>, ())) = Inr 0x20
   \<and> map_sum id (sqe_op_flags \<circ> fst)
     (prepRecvmsg (\<lambda>b fd. (None, b))
        0x1000 (Some sqe_blank) 5 0x2000 True (\<lparr>fdRecord = None\<rparr>, ())) = Inr 0"
  by (simp add: prepRecvmsg_def prep_defs MSG_TRUNC_def sqe_blank_def)

text \<open>
  C6. Every prepare operation, given an entry, sets the user-data tag of the entry to the
  address \<open>this\<close> of the descriptor that prepares it: \<open>prepPollAdd\<close>, \<open>prepRead\<close>,
  \<open>prepWrite\<close>, \<open>prepRecvmsg\<close>, \<open>prepCancel\<close>, and the submit operations of the
  vectored descriptors.
\<close>

theorem prepare_sets_self_tag:
  "(case prepPollAdd reg this (Some sqe) fd events rf db of
      Inl _ \<Rightarrow> False | Inr (s, _) \<Rightarrow> sqe_user_data s = this) \<and>
   (case prepRead reg this (Some sqe) fd iov offset rf db of
      Inl _ \<Rightarrow> False | Inr (s, _) \<Rightarrow> sqe_user_data s = this) \<and>
   (case prepWrite reg this (Some sqe) fd iov offset rf db of
      Inl _ \<Rightarrow> False | Inr (s, _) \<Rightarrow> sqe_user_data s = this) \<and>
   (case prepRecvmsg reg this (Some sqe) fd msg rf db of
      Inl _ \<Rightarrow> False | Inr (s, _) \<Rightarrow> sqe_user_data s = this) \<and>
   (case prepCancel this (Some sqe) target of
      Inl _ \<Rightarrow> False | Inr s \<Rightarrow> sqe_user_data s = this) \<and>
   (case ReadvIoSqe_processSubmit this iov_data (Some sqe) rb of
      Inl _ \<Rightarrow> False | Inr (_, s, _) \<Rightarrow> sqe_user_data s = this) \<and>
   (case WritevIoSqe_processSubmit this iov_data (Some sqe) rb of
      Inl _ \<Rightarrow> False | Inr (_, s, _) \<Rightarrow> sqe_user_data s = this)"
  by (simp add: prepPollAdd_def prepRead_def prepWrite_def prepRecvmsg_def
        prepCancel_def ReadvIoSqe_processSubmit_def WritevIoSqe_processSubmit_def
        io_uring_sqe_set_data_def Let_def split: prod.splits option.splits)

text \<open>The five prepare operations of \<open>IoSqe\<close> check the entry before anything else.\<close>

lemma prep_null_entry_checked:
  "prepPollAdd reg this None fd events rf db = Inl CheckFailed"
  "prepRead reg this None fd iov offset rf db = Inl CheckFailed"
  "prepWrite reg this None fd iov offset rf db = Inl CheckFailed"
  "prepRecvmsg reg this None fd msg rf db = Inl CheckFailed"
  "prepCancel this None target = Inl CheckFailed"
  by (simp_all add: prepPollAdd_def prepRead_def prepWrite_def prepRecvmsg_def prepCancel_def)

text \<open>
  C7. The submit operations of the vectored descriptors do not check the entry: on a
  null entry \<open>ReadvIoSqe_processSubmit\<close> and \<open>WritevIoSqe_processSubmit\<close> write
  through the null pointer, where the operations of \<open>IoSqe\<close> fail their check.
\<close>

theorem vectored_submit_null_entry_unchecked:
  "ReadvIoSqe_processSubmit 0x1000 0x1040 None
     (ReadWriteIoSqe_range 5 [\<lparr>iov_base = 0x2000, iov_len = 16\<rparr>] 0 (0::nat), ()) =
     Inl (Fault NullDereference) \<and>
   WritevIoSqe_processSubmit 0x1000 0x1040 None
     (ReadWriteIoSqe_range 5 [\<lparr>iov_base = 0x2000, iov_len = 16\<rparr>] 0 (0::nat), ()) =
     Inl (Fault NullDereference)"
  by (simp add: ReadvIoSqe_processSubmit_def WritevIoSqe_processSubmit_def)

lemma iov_storage_heap_iff: "iov_storage dflt d = Heap \<longleftrightarrow> dflt < length (rw_iov d)"
  by (simp add: iov_storage_def small_vector_storage_def)

text \<open>
  C8. The inline capacity of the iovec list is the default of \<open>small_vector\<close>, not
  \<open>kNumInlineIoVec\<close>. With the default capacity 1 of folly's class template a
  descriptor of two iovecs keeps its list on the heap; a list of inline capacity
  \<open>kNumInlineIoVec\<close> would keep two elements inline.
\<close>

theorem iov_two_elements_on_heap:
  "iov_storage 1
     (ReadWriteIoSqe_range 5 [\<lparr>iov_base = 0x2000, iov_len = 16\<rparr>, \<lparr>iov_base = 0x3000, iov_len = 16\<rparr>]
        0 (0::nat)) = Heap \<and>
   small_vector_storage kNumInlineIoVec 2 = Inline"
  by (simp add: iov_storage_def small_vector_storage_def ReadWriteIoSqe_range_def kNumInlineIoVec_def)

text \<open>
  C9. \<open>prepCancel\<close>, given an entry, writes a cancel operation whose address field is
  the tag of the target and whose own tag is the cancelling descriptor. Its only effect
  is the entry: it takes and returns no descriptor, result or callback of the target.
\<close>

theorem prepCancel_entry:
  "(case prepCancel this (Some sqe) target of
      Inl _ \<Rightarrow> False
    | Inr s \<Rightarrow>
        sqe_opcode s = IORING_OP_ASYNC_CANCEL \<and> sqe_addr s = target \<and>
        sqe_user_data s = this \<and> sqe_fd s = - 1 \<and> sqe_len s = 0 \<and> sqe_off s = 0 \<and>
        sqe_op_flags s = 0 \<and> sqe_flags s = 0)"
  by (simp add: prepCancel_def prep_defs)

text \<open>
  C10. The descriptors the queue operations construct are submitted on the raw
  descriptor: for every \<open>registerFd\<close> and every state \<open>b\<close> of the backend, the entry
  targets \<open>fd\<close> with no entry flag set, the descriptor stays without a slot, and the
  backend, with its pool, is unchanged.
\<close>

theorem queue_descriptors_submit_raw_fd:
  "(case ReadIoSqe_processSubmit reg this (Some sqe) (ReadWriteIoSqe_single fd iov offset cb, b) of
      Inl _ \<Rightarrow> False
    | Inr (ok, s, d', b') \<Rightarrow>
        ok \<and> sqe_opcode s = IORING_OP_READ \<and> sqe_fd s = fd \<and> sqe_flags s = 0 \<and>
        d' = ReadWriteIoSqe_single fd iov offset cb \<and> b' = b) \<and>
   (case WriteIoSqe_processSubmit reg this (Some sqe) (ReadWriteIoSqe_single fd iov offset cb, b) of
      Inl _ \<Rightarrow> False
    | Inr (ok, s, d', b') \<Rightarrow>
        ok \<and> sqe_opcode s = IORING_OP_WRITE \<and> sqe_fd s = fd \<and> sqe_flags s = 0 \<and>
        d' = ReadWriteIoSqe_single fd iov offset cb \<and> b' = b) \<and>
   (case ReadvIoSqe_processSubmit this iov_data (Some sqe) (ReadWriteIoSqe_range fd iovs offset cb, b) of
      Inl _ \<Rightarrow> False
    | Inr (ok, s, d', b') \<Rightarrow>
        ok \<and> sqe_opcode s = IORING_OP_READV \<and> sqe_fd s = fd \<and> sqe_flags s = 0 \<and>
        d' = ReadWriteIoSqe_range fd iovs offset cb \<and> b' = b) \<and>
   (case WritevIoSqe_processSubmit this iov_data (Some sqe) (ReadWriteIoSqe_range fd iovs offset cb, b) of
      Inl _ \<Rightarrow> False
    | Inr (ok, s, d', b') \<Rightarrow>
        ok \<and> sqe_opcode s = IORING_OP_WRITEV \<and> sqe_fd s = fd \<and> sqe_flags s = 0 \<and>
        d' = ReadWriteIoSqe_range fd iovs offset cb \<and> b' = b)"
  by (simp add: ReadIoSqe_processSubmit_def WriteIoSqe_processSubmit_def
        ReadvIoSqe_processSubmit_def WritevIoSqe_processSubmit_def lift_fault_def
        prepRead_def prepWrite_def prep_defs ReadWriteIoSqe_single_def ReadWriteIoSqe_range_def)

section \<open>Properties of the registration pool\<close>

lemma FdRegistry_wf_iff:
  "FdRegistry_wf r \<longleftrightarrow>
     distinct (reg_free r) \<and>
     (\<forall>i \<in> set (reg_free r). i < length (reg_records r)) \<and>
     (\<forall>i < length (reg_records r).
        rec_idx (reg_records r ! i) = i \<and>
        (rec_in_use (reg_records r ! i) \<longleftrightarrow> i \<notin> set (reg_free r)))"
  by (auto simp: FdRegistry_wf_def list_all_iff)

lemma FdRegistry_new_wf: "FdRegistry_wf (FdRegistry_new n)"
  by (simp add: FdRegistry_wf_iff FdRegistry_new_def)

lemma FdRegistry_new_free [simp]: "reg_free (FdRegistry_new n) = [0..<n]"
  by (simp add: FdRegistry_new_def)

lemma FdRegistry_new_length [simp]: "length (reg_records (FdRegistry_new n)) = n"
  by (simp add: FdRegistry_new_def)

lemma alloc_Nil: "reg_free r = [] \<Longrightarrow> FdRegistry_alloc r fd = (None, r)"
  by (simp add: FdRegistry_alloc_def)

lemma alloc_Cons:
  "reg_free r = i # rest \<Longrightarrow>
   FdRegistry_alloc r fd =
     (Some ((reg_records r ! i)\<lparr>rec_fd := fd, rec_in_use := True\<rparr>),
      r\<lparr>reg_records := (reg_records r)[i := (reg_records r ! i)\<lparr>rec_fd := fd, rec_in_use := True\<rparr>],
        reg_free := rest\<rparr>)"
  by (simp add: FdRegistry_alloc_def Let_def)

lemma alloc_length [simp]:
  "length (reg_records (snd (FdRegistry_alloc r fd))) = length (reg_records r)"
  by (cases "reg_free r") (simp_all add: alloc_Nil alloc_Cons)

lemma alloc_free [simp]: "reg_free (snd (FdRegistry_alloc r fd)) = tl (reg_free r)"
  by (cases "reg_free r") (simp_all add: alloc_Nil alloc_Cons)

lemma alloc_wf: "FdRegistry_wf r \<Longrightarrow> FdRegistry_wf (snd (FdRegistry_alloc r fd))"
proof (cases "reg_free r")
  case Nil
  assume "FdRegistry_wf r"
  with Nil show ?thesis by (simp add: alloc_Nil)
next
  case (Cons i rest)
  assume wf: "FdRegistry_wf r"
  from wf Cons have i: "i < length (reg_records r)" "i \<notin> set rest" "distinct rest"
    by (auto simp: FdRegistry_wf_iff)
  show ?thesis
    unfolding alloc_Cons [OF Cons] FdRegistry_wf_iff
    using wf Cons i by (auto simp: FdRegistry_wf_iff nth_list_update)
qed

lemma alloc_result:
  assumes "FdRegistry_wf r" "reg_free r = i # rest"
  shows "\<exists>rc. fst (FdRegistry_alloc r fd) = Some rc \<and> rec_idx rc = i \<and> rec_fd rc = fd \<and>
           rec_in_use rc \<and> \<not> rec_in_use (reg_records r ! i)"
  using assms by (auto simp: alloc_Cons FdRegistry_wf_iff)

lemma free_in_use:
  "rec_in_use (reg_records r ! rec_idx rc) \<Longrightarrow>
   FdRegistry_free r rc =
     (True, r\<lparr>reg_records := (reg_records r)[rec_idx rc := (reg_records r ! rec_idx rc)\<lparr>rec_in_use := False\<rparr>],
              reg_free := rec_idx rc # reg_free r\<rparr>)"
  by (simp add: FdRegistry_free_def Let_def)

lemma free_not_in_use:
  "\<not> rec_in_use (reg_records r ! rec_idx rc) \<Longrightarrow> FdRegistry_free r rc = (False, r)"
  by (simp add: FdRegistry_free_def Let_def)

lemma free_length [simp]:
  "length (reg_records (snd (FdRegistry_free r rc))) = length (reg_records r)"
  by (cases "rec_in_use (reg_records r ! rec_idx rc)") (simp_all add: free_in_use free_not_in_use)

lemma free_wf:
  assumes "FdRegistry_wf r" "rec_idx rc < length (reg_records r)"
  shows "FdRegistry_wf (snd (FdRegistry_free r rc))"
proof (cases "rec_in_use (reg_records r ! rec_idx rc)")
  case False
  with assms show ?thesis by (simp add: free_not_in_use)
next
  case True
  with assms have "rec_idx rc \<notin> set (reg_free r)"
    by (auto simp: FdRegistry_wf_iff)
  with assms True show ?thesis
    unfolding free_in_use [OF True] FdRegistry_wf_iff
    by (auto simp: FdRegistry_wf_iff nth_list_update)
qed

lemma alloc_all_take:
  "FdRegistry_wf r \<Longrightarrow> length fds \<le> length (reg_free r) \<Longrightarrow>
   alloc_all r fds = (xs, r') \<Longrightarrow>
   FdRegistry_wf r' \<and> reg_free r' = drop (length fds) (reg_free r) \<and>
   length (reg_records r') = length (reg_records r) \<and>
   list_all (\<lambda>x. x \<noteq> None) xs \<and>
   map (\<lambda>x. rec_idx (the x)) xs = take (length fds) (reg_free r)"
proof (induction fds arbitrary: r xs r')
  case Nil
  then show ?case by simp
next
  case (Cons fd fds)
  from Cons.prems(2) obtain i rest where fr: "reg_free r = i # rest"
    by (cases "reg_free r") auto
  obtain x r1 where a: "FdRegistry_alloc r fd = (x, r1)" by (cases "FdRegistry_alloc r fd")
  obtain ys r2 where b: "alloc_all r1 fds = (ys, r2)" by (cases "alloc_all r1 fds")
  from Cons.prems(3) a b have xs: "xs = x # ys" and r': "r' = r2" by auto
  have wf1: "FdRegistry_wf r1" using alloc_wf [OF Cons.prems(1), of fd] a by simp
  have fr1: "reg_free r1 = rest" using alloc_free [of r fd] a fr by simp
  have len1: "length (reg_records r1) = length (reg_records r)"
    using alloc_length [of r fd] a by simp
  from alloc_result [OF Cons.prems(1) fr, of fd] a
  obtain rc where x: "x = Some rc" "rec_idx rc = i" by auto
  have "length fds \<le> length (reg_free r1)" using Cons.prems(2) fr fr1 by simp
  from Cons.IH [OF wf1 this b] show ?case
    using xs r' fr fr1 len1 x by simp
qed

lemma wf_free_empty_in_use:
  "FdRegistry_wf r \<Longrightarrow> reg_free r = [] \<Longrightarrow> i < length (reg_records r) \<Longrightarrow>
   rec_in_use (reg_records r ! i)"
  by (simp add: FdRegistry_wf_iff)


lemma pool_step_inv:
  assumes wf: "FdRegistry_wf r" and len: "length (reg_records r) = n"
    and d: "distinct owners"
    and own: "set owners = {i. i < n \<and> rec_in_use (reg_records r ! i)}"
    and ok: "pool_op_ok n p"
    and step: "pool_step (r, owners) p = (r', owners')"
  shows "FdRegistry_wf r' \<and> length (reg_records r') = n \<and> distinct owners' \<and>
         set owners' = {i. i < n \<and> rec_in_use (reg_records r' ! i)}"
proof (cases p)
  case (Alloc fd)
  show ?thesis
  proof (cases "reg_free r")
    case Nil
    with Alloc step wf len d own show ?thesis by (simp add: alloc_Nil)
  next
    case (Cons i rest)
    from wf Cons have i: "i < n" "\<not> rec_in_use (reg_records r ! i)" "rec_idx (reg_records r ! i) = i"
      using len by (auto simp: FdRegistry_wf_iff)
    from step Alloc Cons have r': "r' = snd (FdRegistry_alloc r fd)" and o': "owners' = i # owners"
      using i by (auto simp: alloc_Cons)
    have wf': "FdRegistry_wf r'" unfolding r' by (rule alloc_wf [OF wf])
    have "i \<notin> set owners" using own i by simp
    moreover have "{j. j < n \<and> rec_in_use (reg_records r' ! j)} = insert i (set owners)"
      unfolding r' alloc_Cons [OF Cons] using own i len by (auto simp: nth_list_update)
    ultimately show ?thesis using wf' d o' len r' by simp
  qed
next
  case (Release i)
  with ok have i: "i < n" by simp
  show ?thesis
  proof (cases "rec_in_use (reg_records r ! i)")
    case False
    from wf i len have idx: "rec_idx (reg_records r ! i) = i" by (simp add: FdRegistry_wf_iff)
    with False have "FdRegistry_free r (reg_records r ! i) = (False, r)"
      by (simp add: free_not_in_use)
    with step Release wf len d own show ?thesis by simp
  next
    case True
    from wf i len have idx: "rec_idx (reg_records r ! i) = i" by (simp add: FdRegistry_wf_iff)
    from True idx have u: "rec_in_use (reg_records r ! rec_idx (reg_records r ! i))" by simp
    from step Release free_in_use [OF u] idx
    have r': "r' = snd (FdRegistry_free r (reg_records r ! i))" and o': "owners' = remove1 i owners"
      by auto
    have wf': "FdRegistry_wf r'" unfolding r' using free_wf [OF wf] idx i len by simp
    have "{j. j < n \<and> rec_in_use (reg_records r' ! j)} = set owners - {i}"
      unfolding r' free_in_use [OF u] using own i len idx by (auto simp: nth_list_update)
    then show ?thesis using wf' d o' len r' by simp
  qed
qed

lemma pool_foldl_inv:
  "FdRegistry_wf r \<Longrightarrow> length (reg_records r) = n \<Longrightarrow> distinct owners \<Longrightarrow>
   set owners = {i. i < n \<and> rec_in_use (reg_records r ! i)} \<Longrightarrow>
   list_all (pool_op_ok n) ops \<Longrightarrow>
   distinct (snd (foldl pool_step (r, owners) ops))"
proof (induction ops arbitrary: r owners)
  case Nil
  then show ?case by simp
next
  case (Cons p ops)
  obtain r' owners' where s: "pool_step (r, owners) p = (r', owners')"
    by (cases "pool_step (r, owners) p")
  from Cons.prems(5) have ok: "pool_op_ok n p" and oks: "list_all (pool_op_ok n) ops" by simp_all
  from pool_step_inv [OF Cons.prems(1-4) ok s] Cons.IH [of r' owners'] oks s
  show ?case by simp
qed

lemma pool_run_distinct:
  "list_all (pool_op_ok n) ops \<Longrightarrow> distinct (snd (pool_run n ops))"
  unfolding pool_run_def
  by (rule pool_foldl_inv [OF FdRegistry_new_wf]) (auto simp: FdRegistry_new_def)

text \<open>
  C4. From a new pool of capacity \<open>n\<close>, \<open>n\<close> allocations in a row each return a slot,
  and the slots have different indices; one more allocation returns null; after the
  release of one of the slots handed out, the next allocation returns that slot and the
  one after it returns null. In every run of allocations and releases from a new pool, the
  list of owners never holds an index twice: no slot is held by two owners at a time.
\<close>

theorem registration_pool_capacity:
  assumes len: "length fds = n" and run: "alloc_all (FdRegistry_new n) fds = (xs, r)"
  shows "list_all (\<lambda>x. x \<noteq> None) xs \<and> distinct (map (\<lambda>x. rec_idx (the x)) xs) \<and>
         fst (FdRegistry_alloc r fd) = None \<and>
         (Some rc \<in> set xs \<longrightarrow>
            (let (ok, r1) = FdRegistry_free r rc;
                 (y, r2) = FdRegistry_alloc r1 fd1;
                 (z, r3) = FdRegistry_alloc r2 fd2
             in ok \<and> map_option rec_idx y = Some (rec_idx rc) \<and> z = None)) \<and>
         (list_all (pool_op_ok n) ops \<longrightarrow> distinct (snd (pool_run n ops)))"
proof -
  have le: "length fds \<le> length (reg_free (FdRegistry_new n))" using len by simp
  from alloc_all_take [OF FdRegistry_new_wf le run] len
  have wf: "FdRegistry_wf r" and fr: "reg_free r = []" and n: "length (reg_records r) = n"
    and some: "list_all (\<lambda>x. x \<noteq> None) xs" and idx: "map (\<lambda>x. rec_idx (the x)) xs = [0..<n]"
    by simp_all
  have d: "distinct (map (\<lambda>x. rec_idx (the x)) xs)" unfolding idx by simp
  have full: "fst (FdRegistry_alloc r fd) = None" using fr by (simp add: alloc_Nil)
  have again: "let (ok, r1) = FdRegistry_free r rc;
                 (y, r2) = FdRegistry_alloc r1 fd1;
                 (z, r3) = FdRegistry_alloc r2 fd2
             in ok \<and> map_option rec_idx y = Some (rec_idx rc) \<and> z = None"
    if rc: "Some rc \<in> set xs"
  proof -
    from rc have "rec_idx rc \<in> set (map (\<lambda>x. rec_idx (the x)) xs)" by force
    then have lt: "rec_idx rc < n" unfolding idx by simp
    then have u: "rec_in_use (reg_records r ! rec_idx rc)"
      using wf_free_empty_in_use [OF wf fr] n by simp
    define r1 where "r1 = snd (FdRegistry_free r rc)"
    have f1: "FdRegistry_free r rc = (True, r1)" unfolding r1_def by (simp add: free_in_use [OF u])
    have wf1: "FdRegistry_wf r1" unfolding r1_def using free_wf [OF wf] lt n by simp
    have fr1: "reg_free r1 = [rec_idx rc]" unfolding r1_def by (simp add: free_in_use [OF u] fr)
    define r2 where "r2 = snd (FdRegistry_alloc r1 fd1)"
    from alloc_result [OF wf1 fr1, of fd1] obtain rc' where
      y: "fst (FdRegistry_alloc r1 fd1) = Some rc'" "rec_idx rc' = rec_idx rc" by auto
    have a1: "FdRegistry_alloc r1 fd1 = (Some rc', r2)" unfolding r2_def using y(1)
      by (metis prod.collapse)
    have fr2: "reg_free r2 = []" unfolding r2_def using fr1 by simp
    have a2: "FdRegistry_alloc r2 fd2 = (None, r2)" using fr2 by (rule alloc_Nil)
    show ?thesis by (simp add: f1 a1 a2 y(2))
  qed
  from some d full again pool_run_distinct [of n ops] show ?thesis by blast
qed

theorem registration_pool_capacity_witness:
  "length [10, 11 :: s32] = 2 \<and>
   Some \<lparr>rec_idx = 0, rec_fd = 10, rec_in_use = True\<rparr>
     \<in> set (fst (alloc_all (FdRegistry_new 2) [10, 11])) \<and>
   list_all (pool_op_ok 2) [Alloc 10, Alloc 11, Release 0, Alloc 12, Alloc 13] \<and>
   list_all (\<lambda>x. x \<noteq> None) (fst (alloc_all (FdRegistry_new 2) [10, 11])) \<and>
   distinct (map (\<lambda>x. rec_idx (the x)) (fst (alloc_all (FdRegistry_new 2) [10, 11]))) \<and>
   fst (FdRegistry_alloc (snd (alloc_all (FdRegistry_new 2) [10, 11])) 12) = None \<and>
   (let (ok, r1) = FdRegistry_free (snd (alloc_all (FdRegistry_new 2) [10, 11]))
                     \<lparr>rec_idx = 0, rec_fd = 10, rec_in_use = True\<rparr>;
        (y, r2) = FdRegistry_alloc r1 12;
        (z, r3) = FdRegistry_alloc r2 13
    in ok \<and> map_option rec_idx y = Some 0 \<and> z = None) \<and>
   distinct (snd (pool_run 2 [Alloc 10, Alloc 11, Release 0, Alloc 12, Alloc 13]))"
proof -
  have upt2: "[0..<2] = [0, Suc 0]" by (simp add: upt_rec)
  have h1: "length [10, 11 :: s32] = 2" by simp
  have h2: "alloc_all (FdRegistry_new 2) [10, 11] =
              (fst (alloc_all (FdRegistry_new 2) [10, 11]), snd (alloc_all (FdRegistry_new 2) [10, 11]))"
    by simp
  have h3: "Some \<lparr>rec_idx = 0, rec_fd = 10, rec_in_use = True\<rparr>
              \<in> set (fst (alloc_all (FdRegistry_new 2) [10, 11]))"
    by (simp add: FdRegistry_new_def FdRegistry_alloc_def Let_def upt2)
  have h4: "list_all (pool_op_ok 2) [Alloc 10, Alloc 11, Release 0, Alloc 12, Alloc 13]"
    by simp
  from registration_pool_capacity
         [OF h1 h2, of 12 "\<lparr>rec_idx = 0, rec_fd = 10, rec_in_use = True\<rparr>" 12 13
            "[Alloc 10, Alloc 11, Release 0, Alloc 12, Alloc 13]"] h3 h4
  show ?thesis by simp
qed

text \<open>
  C5. Releasing a slot that is in use returns true and puts the index of the slot at the
  head of the free list; releasing the same slot again, with no allocation between,
  returns false and leaves the backend, with its pool, as it is. \<open>unregisterFd\<close> hands
  the record to \<open>FdRegistry_free\<close>.
\<close>

theorem release_twice:
  assumes "rec_idx rc < length (reg_records (fdRegistry b))"
    and "rec_in_use (reg_records (fdRegistry b) ! rec_idx rc)"
  shows "(let (ok1, b1) = IoUringBackend_unregisterFd b rc;
              (ok2, b2) = IoUringBackend_unregisterFd b1 rc
          in ok1 \<and> reg_free (fdRegistry b1) = rec_idx rc # reg_free (fdRegistry b) \<and>
             \<not> rec_in_use (reg_records (fdRegistry b1) ! rec_idx rc) \<and>
             \<not> ok2 \<and> b2 = b1)"
  using assms by (simp add: IoUringBackend_unregisterFd_def FdRegistry_free_def Let_def)

theorem release_twice_witness:
  "rec_idx \<lparr>rec_idx = 0, rec_fd = 7, rec_in_use = True\<rparr>
     < length (reg_records (fdRegistry (snd (IoUringBackend_registerFd (backend_idle 2 :: nat IoUringBackend) 7)))) \<and>
   (let b = snd (IoUringBackend_registerFd (backend_idle 2 :: nat IoUringBackend) 7);
        (ok1, b1) = IoUringBackend_unregisterFd b \<lparr>rec_idx = 0, rec_fd = 7, rec_in_use = True\<rparr>;
        (ok2, b2) = IoUringBackend_unregisterFd b1 \<lparr>rec_idx = 0, rec_fd = 7, rec_in_use = True\<rparr>
    in fst (IoUringBackend_registerFd (backend_idle 2 :: nat IoUringBackend) 7)
         = Some \<lparr>rec_idx = 0, rec_fd = 7, rec_in_use = True\<rparr> \<and>
       rec_in_use (reg_records (fdRegistry b) ! 0) \<and>
       ok1 \<and> reg_free (fdRegistry b1) = [0, Suc 0] \<and> \<not> ok2 \<and> b2 = b1)"
proof -
  have upt2: "[0..<2] = [0, Suc 0]" by (simp add: upt_rec)
  define b where "b = snd (IoUringBackend_registerFd (backend_idle 2 :: nat IoUringBackend) 7)"
  have r: "fdRegistry b =
             \<lparr>reg_records = [\<lparr>rec_idx = 0, rec_fd = 7, rec_in_use = True\<rparr>,
                             \<lparr>rec_idx = Suc 0, rec_fd = - 1, rec_in_use = False\<rparr>],
              reg_free = [Suc 0]\<rparr>"
    by (simp add: b_def IoUringBackend_registerFd_def backend_idle_def FdRegistry_new_def
          FdRegistry_alloc_def Let_def upt2)
  have a: "fst (IoUringBackend_registerFd (backend_idle 2 :: nat IoUringBackend) 7)
             = Some \<lparr>rec_idx = 0, rec_fd = 7, rec_in_use = True\<rparr>"
    by (simp add: IoUringBackend_registerFd_def backend_idle_def FdRegistry_new_def
          FdRegistry_alloc_def Let_def upt2)
  have h1: "rec_idx \<lparr>rec_idx = 0, rec_fd = 7, rec_in_use = True\<rparr> < length (reg_records (fdRegistry b))"
    by (simp add: r)
  have h2: "rec_in_use (reg_records (fdRegistry b) ! rec_idx \<lparr>rec_idx = 0, rec_fd = 7, rec_in_use = True\<rparr>)"
    by (simp add: r)
  from release_twice [OF h1 h2] h1 h2 a show ?thesis
    unfolding b_def [symmetric] by (simp add: r Let_def split: prod.splits)
qed

end
